theory Spec2Isabelle
  imports Complex_Main "HOL-Library.Sublist"
begin

section \<open>Values, errors and the environment of the scripts\<close>

text \<open>
  The repository holds two scripts that inspect the plugin's static files,
  \<^verbatim>\<open>validate_plugin.py\<close> and \<^verbatim>\<open>tests/test_plugin.py\<close>, and one script
  (\<^verbatim>\<open>example_usage.py\<close>) that calls the external framework \<^verbatim>\<open>fz\<close>.

  A value returned by \<^verbatim>\<open>json.load\<close> is a \<open>json\<close>. An object keeps its items as an
  association list in the order of the dict (the keys of a dict are distinct);
  \<open>map_of\<close> is the lookup.
\<close>

datatype json =
    JNull
  | JBool bool
  | JNum real
  | JStr string
  | JArr "json list"
  | JObj "(string \<times> json) list"

text \<open>The exceptions the scripts can raise; an \<open>AssertionError\<close> carries its message.\<close>

datatype error =
    FileNotFoundError
  | IsADirectoryError
  | JSONDecodeError
  | TypeError
  | KeyError
  | AttributeError
  | AssertionError string

text \<open>
  The file system as the scripts see it from their working directory: a path names a
  directory or a regular text file. A file has its decoded text (what \<^verbatim>\<open>f.read()\<close>
  returns, line ends already translated to the newline character) and both kinds of
  node have the answer of \<^verbatim>\<open>os.access(path, os.X_OK)\<close>. Every file is readable by the
  process.
\<close>

datatype node =
    Dir (x_ok: bool)
  | File (content: string) (x_ok: bool)

type_synonym fs = "string \<Rightarrow> node option"

definition os_path_exists :: "fs \<Rightarrow> string \<Rightarrow> bool" where
  "os_path_exists fs p = (case fs p of None \<Rightarrow> False | Some _ \<Rightarrow> True)"

definition os_path_isdir :: "fs \<Rightarrow> string \<Rightarrow> bool" where
  "os_path_isdir fs p = (case fs p of Some (Dir _) \<Rightarrow> True | _ \<Rightarrow> False)"

definition os_access_x :: "fs \<Rightarrow> string \<Rightarrow> bool" where
  "os_access_x fs p = (case fs p of None \<Rightarrow> False | Some n \<Rightarrow> x_ok n)"

text \<open>\<^verbatim>\<open>open(filepath, 'r')\<close> followed by reading the text.\<close>

definition open_read :: "fs \<Rightarrow> string \<Rightarrow> error + string" where
  "open_read fs p =
     (case fs p of
        None \<Rightarrow> Inl FileNotFoundError
      | Some (Dir _) \<Rightarrow> Inl IsADirectoryError
      | Some (File c _) \<Rightarrow> Inr c)"

text \<open>
  \<^verbatim>\<open>json.load\<close> is a library function; the scripts are modelled over any parser
  \<open>jl\<close>, which gives \<open>None\<close> where \<^verbatim>\<open>json.load\<close> raises \<open>JSONDecodeError\<close>.
\<close>

type_synonym json_load = "string \<Rightarrow> json option"

definition read_json :: "fs \<Rightarrow> json_load \<Rightarrow> string \<Rightarrow> error + json" where
  "read_json fs jl p =
     (case open_read fs p of
        Inl e \<Rightarrow> Inl e
      | Inr c \<Rightarrow> (case jl c of None \<Rightarrow> Inl JSONDecodeError | Some v \<Rightarrow> Inr v))"

subsection \<open>Python operations on loaded values\<close>

text \<open>\<^verbatim>\<open>len(x)\<close>: defined on dicts, lists and strings, a \<open>TypeError\<close> otherwise.\<close>

fun py_len :: "json \<Rightarrow> error + nat" where
  "py_len (JObj kvs) = Inr (length kvs)"
| "py_len (JArr xs) = Inr (length xs)"
| "py_len (JStr s) = Inr (length s)"
| "py_len _ = Inl TypeError"

text \<open>
  \<^verbatim>\<open>key in x\<close> for a string \<open>key\<close>: a key of a dict, an element of a list, a
  substring of a string, a \<open>TypeError\<close> otherwise.
\<close>

fun py_in :: "string \<Rightarrow> json \<Rightarrow> error + bool" where
  "py_in k (JObj kvs) = Inr (k \<in> set (map fst kvs))"
| "py_in k (JArr xs) = Inr (JStr k \<in> set xs)"
| "py_in k (JStr s) = Inr (sublist k s)"
| "py_in k _ = Inl TypeError"

text \<open>\<^verbatim>\<open>x[key]\<close> for a string \<open>key\<close>: only a dict can be indexed by a string.\<close>

fun py_getitem :: "json \<Rightarrow> string \<Rightarrow> error + json" where
  "py_getitem (JObj kvs) k = (case map_of kvs k of None \<Rightarrow> Inl KeyError | Some v \<Rightarrow> Inr v)"
| "py_getitem _ k = Inl TypeError"

text \<open>\<^verbatim>\<open>for item in x\<close>: the keys of a dict, the elements of a list, the characters of a string.\<close>

fun py_iter :: "json \<Rightarrow> error + json list" where
  "py_iter (JObj kvs) = Inr (map (\<lambda>kv. JStr (fst kv)) kvs)"
| "py_iter (JArr xs) = Inr xs"
| "py_iter (JStr s) = Inr (map (\<lambda>c. JStr [c]) s)"
| "py_iter _ = Inl TypeError"

text \<open>\<^verbatim>\<open>x.keys()\<close>: only a dict has the method.\<close>

fun py_keys :: "json \<Rightarrow> error + string list" where
  "py_keys (JObj kvs) = Inr (map fst kvs)"
| "py_keys _ = Inl AttributeError"

text \<open>\<^verbatim>\<open>f.readline().strip()\<close> on the text of a file.\<close>

definition py_isspace :: "char \<Rightarrow> bool" where
  "py_isspace c =
     (let n = (of_char c :: nat)
      in (9 \<le> n \<and> n \<le> 13) \<or> (28 \<le> n \<and> n \<le> 32) \<or> n = 133 \<or> n = 160)"

definition py_strip :: "string \<Rightarrow> string" where
  "py_strip s = rev (dropWhile py_isspace (rev (dropWhile py_isspace s)))"

definition py_readline :: "string \<Rightarrow> string" where
  "py_readline s =
     takeWhile (\<lambda>c. c \<noteq> CHR 0x0A) s @ (if CHR 0x0A \<in> set s then [CHR 0x0A] else [])"

subsection \<open>Standard output and exceptions\<close>

text \<open>
  One constructor per \<^verbatim>\<open>print\<close> statement that interpolates a value or prints a
  mark outside ASCII; \<open>Line\<close> is a line of fixed ASCII text. What the f-string
  interpolates is the constructor's argument.
\<close>

datatype shown =
    ShowValue json
  | ShowOutputs nat
  | ShowKeys "string list"

datatype msg =
    Line string
  | Found string string
  | NotFound string string
  | ValidJSON nat
  | InvalidJSON
  | ExecutableYes
  | ExecutableNo
  | Shebang string
  | NoShebang
  | RequiredKey string shown
  | MissingKey string
  | OutputVar json
  | DirExists string
  | DirNotFound string
  | AllValidationsPassed
  | SomeValidationsFailed
  | ModelFileExists string
  | TestValidJSON
  | HasField string shown
  | OutputVariables "string list"
  | ModelFilesTestPassed

text \<open>
  A computation prints lines and then returns a value or raises: the lines printed
  before an exception stay printed.
\<close>

type_synonym 'a io = "msg list \<times> (error + 'a)"

definition return_io :: "'a \<Rightarrow> 'a io" where
  "return_io a = ([], Inr a)"

definition raise_io :: "error \<Rightarrow> 'a io" where
  "raise_io e = ([], Inl e)"

definition prints :: "msg list \<Rightarrow> unit io" where
  "prints ms = (ms, Inr ())"

definition lift_io :: "error + 'a \<Rightarrow> 'a io" where
  "lift_io r = ([], r)"

definition bind_io :: "'a io \<Rightarrow> ('a \<Rightarrow> 'b io) \<Rightarrow> 'b io" where
  "bind_io m f =
     (case m of
        (out, Inl e) \<Rightarrow> (out, Inl e)
      | (out, Inr a) \<Rightarrow> (case f a of (out', r) \<Rightarrow> (out @ out', r)))"

definition stdout :: "'a io \<Rightarrow> msg list" where
  "stdout m = fst m"

definition outcome :: "'a io \<Rightarrow> error + 'a" where
  "outcome m = snd m"

text \<open>A \<^verbatim>\<open>for\<close> loop whose body returns nothing; an exception in the body ends the loop.\<close>

primrec for_io :: "'a list \<Rightarrow> ('a \<Rightarrow> unit io) \<Rightarrow> unit io" where
  "for_io [] body = return_io ()"
| "for_io (x # xs) body = bind_io (body x) (\<lambda>_. for_io xs body)"

text \<open>\<^verbatim>\<open>assert cond, message\<close>.\<close>

definition py_assert :: "bool \<Rightarrow> string \<Rightarrow> unit io" where
  "py_assert cond message = (if cond then return_io () else raise_io (AssertionError message))"

section \<open>The validation script (\<^verbatim>\<open>validate_plugin.py\<close>)\<close>

definition validate_file_exists :: "fs \<Rightarrow> string \<Rightarrow> string \<Rightarrow> bool io" where
  "validate_file_exists fs filepath description =
     (if os_path_exists fs filepath
      then bind_io (prints [Found description filepath]) (\<lambda>_. return_io True)
      else bind_io (prints [NotFound description filepath]) (\<lambda>_. return_io False))"

text \<open>
  Only \<open>JSONDecodeError\<close> is caught: a failure of \<^verbatim>\<open>open\<close> or of \<^verbatim>\<open>len(data)\<close>
  leaves the function as an exception.
\<close>

definition validate_json_file :: "fs \<Rightarrow> json_load \<Rightarrow> string \<Rightarrow> string \<Rightarrow> bool io" where
  "validate_json_file fs jl filepath description =
     bind_io (validate_file_exists fs filepath description) (\<lambda>ok.
       if \<not> ok then return_io False
       else bind_io (lift_io (open_read fs filepath)) (\<lambda>text.
         case jl text of
           None \<Rightarrow> bind_io (prints [InvalidJSON]) (\<lambda>_. return_io False)
         | Some data \<Rightarrow>
             bind_io (lift_io (py_len data)) (\<lambda>n.
             bind_io (prints [ValidJSON n]) (\<lambda>_. return_io True))))"

definition validate_shell_script :: "fs \<Rightarrow> string \<Rightarrow> string \<Rightarrow> bool io" where
  "validate_shell_script fs filepath description =
     bind_io (validate_file_exists fs filepath description) (\<lambda>ok.
       if \<not> ok then return_io False
       else
         let is_executable = os_access_x fs filepath in
         bind_io (prints [if is_executable then ExecutableYes else ExecutableNo]) (\<lambda>_.
         bind_io (lift_io (open_read fs filepath)) (\<lambda>text.
           let first_line = py_strip (py_readline text) in
           bind_io (prints [if prefix ''#!/'' first_line then Shebang first_line else NoShebang])
             (\<lambda>_. return_io True))))"

text \<open>
  The body of the loop over \<open>required_keys\<close> in \<^verbatim>\<open>validate_model_json\<close>: a present
  key is printed with its value (the number of outputs for \<open>output\<close>), an absent one
  is reported as missing. Nothing is returned and no flag is set.
\<close>

definition model_key_report :: "json \<Rightarrow> string \<Rightarrow> unit io" where
  "model_key_report model key =
     bind_io (lift_io (py_in key model)) (\<lambda>present.
       if present then
         bind_io (lift_io (py_getitem model key)) (\<lambda>v.
           if key \<noteq> ''output'' then prints [RequiredKey key (ShowValue v)]
           else bind_io (lift_io (py_len v)) (\<lambda>n. prints [RequiredKey key (ShowOutputs n)]))
       else prints [MissingKey key])"

definition model_required_keys :: "string list" where
  "model_required_keys = [''id'', ''varprefix'', ''delim'', ''commentline'', ''output'']"

text \<open>
  The end of \<^verbatim>\<open>validate_model_json\<close>, after the loop: the names of the outputs are
  listed when the model has an \<open>output\<close> key.
\<close>

definition output_listing :: "json \<Rightarrow> unit io" where
  "output_listing model =
     bind_io (lift_io (py_in ''output'' model)) (\<lambda>has_output.
       if has_output then
         bind_io (prints [Line ''\<newline>  Output variables defined:'']) (\<lambda>_.
         bind_io (lift_io (py_getitem model ''output'')) (\<lambda>output.
         bind_io (lift_io (py_iter output)) (\<lambda>items.
           for_io items (\<lambda>output_key. prints [OutputVar output_key]))))
       else return_io ())"

definition validate_model_json :: "fs \<Rightarrow> json_load \<Rightarrow> string \<Rightarrow> unit io" where
  "validate_model_json fs jl filepath =
     bind_io (prints [Line ''\<newline>Validating Model JSON Structure:'',
                      Line (replicate 50 CHR ''-'')]) (\<lambda>_.
     bind_io (lift_io (read_json fs jl filepath)) (\<lambda>model.
     bind_io (for_io model_required_keys (model_key_report model)) (\<lambda>_.
       output_listing model)))"

definition calculator_key_report :: "json \<Rightarrow> string \<Rightarrow> unit io" where
  "calculator_key_report calc key =
     bind_io (lift_io (py_in key calc)) (\<lambda>present.
       if present then
         bind_io (lift_io (py_getitem calc key)) (\<lambda>v.
           if key \<noteq> ''models'' then prints [RequiredKey key (ShowValue v)]
           else bind_io (lift_io (py_keys v)) (\<lambda>ks. prints [RequiredKey key (ShowKeys ks)]))
       else prints [MissingKey key])"

definition validate_calculator_json :: "fs \<Rightarrow> json_load \<Rightarrow> string \<Rightarrow> unit io" where
  "validate_calculator_json fs jl filepath =
     bind_io (prints [Line ''\<newline>Validating Calculator JSON Structure:'',
                      Line (replicate 50 CHR ''-'')]) (\<lambda>_.
     bind_io (lift_io (read_json fs jl filepath)) (\<lambda>calc.
       for_io [''uri'', ''models''] (calculator_key_report calc)))"

text \<open>The loop of \<^verbatim>\<open>main\<close> over the three directories; it carries \<open>all_valid\<close>.\<close>

primrec check_dirs :: "fs \<Rightarrow> string list \<Rightarrow> bool \<Rightarrow> bool io" where
  "check_dirs fs [] all_valid = return_io all_valid"
| "check_dirs fs (d # ds) all_valid =
     (if os_path_isdir fs d
      then bind_io (prints [DirExists d]) (\<lambda>_. check_dirs fs ds all_valid)
      else bind_io (prints [DirNotFound d]) (\<lambda>_. check_dirs fs ds False))"

definition model_json_path :: string where
  "model_json_path = ''.fz/models/Moret.json''"

definition calculator_script_path :: string where
  "calculator_script_path = ''.fz/calculators/Moret.sh''"

definition calculator_json_path :: string where
  "calculator_json_path = ''.fz/calculators/Localhost_Moret.json''"

text \<open>
  \<^verbatim>\<open>main\<close> returns the exit code 0 or 1. The two detailed validations of step 5 are
  called for their output only: \<open>all_valid\<close> is not updated from them.
\<close>

definition main :: "fs \<Rightarrow> json_load \<Rightarrow> int io" where
  "main fs jl =
     bind_io (prints [Line (replicate 60 CHR ''=''),
                      Line ''Moret Plugin Structure Validation'',
                      Line (replicate 60 CHR ''=''),
                      Line ''\<newline>1. Checking Directory Structure:'',
                      Line (replicate 50 CHR ''-'')]) (\<lambda>_.
     bind_io (check_dirs fs [''.fz'', ''.fz/models'', ''.fz/calculators''] True) (\<lambda>v1.
     bind_io (prints [Line ''\<newline>2. Checking Model Files:'',
                      Line (replicate 50 CHR ''-'')]) (\<lambda>_.
     bind_io (validate_json_file fs jl model_json_path ''Model definition'') (\<lambda>r2.
     bind_io (prints [Line ''\<newline>3. Checking Calculator Files:'',
                      Line (replicate 50 CHR ''-'')]) (\<lambda>_.
     bind_io (validate_shell_script fs calculator_script_path ''Calculator script'') (\<lambda>r3.
     bind_io (validate_json_file fs jl calculator_json_path ''Calculator alias'') (\<lambda>r4.
     bind_io (prints [Line ''\<newline>4. Checking Sample Files:'',
                      Line (replicate 50 CHR ''-'')]) (\<lambda>_.
     bind_io (validate_file_exists fs ''godiva.m5'' ''Sample input file'') (\<lambda>r5.
     bind_io (validate_file_exists fs ''example_usage.py'' ''Example usage script'') (\<lambda>r6.
     bind_io (validate_file_exists fs ''README.md'' ''README'') (\<lambda>r7.
     bind_io (validate_file_exists fs ''.gitignore'' ''Git ignore file'') (\<lambda>r8.
     bind_io (prints [Line ''\<newline>5. Detailed Validation:'',
                      Line (replicate 50 CHR ''-'')]) (\<lambda>_.
     bind_io (validate_model_json fs jl model_json_path) (\<lambda>_.
     bind_io (validate_calculator_json fs jl calculator_json_path) (\<lambda>_.
     bind_io (prints [Line (CHR 0x0A # replicate 60 CHR ''='')]) (\<lambda>_.
       let all_valid = (v1 \<and> r2 \<and> r3 \<and> r4 \<and> r5 \<and> r6 \<and> r7 \<and> r8) in
       if all_valid then
         bind_io (prints [AllValidationsPassed,
                          Line (replicate 60 CHR ''=''),
                          Line ''\<newline>The Moret plugin structure is complete and valid!'',
                          Line ''\<newline>Next steps:'',
                          Line ''  1. Install fz: pip install fz'',
                          Line ''  2. Install MORET at /opt/MORET/scripts/moret.py'',
                          Line ''  3. Run: python example_usage.py'']) (\<lambda>_. return_io 0)
       else
         bind_io (prints [SomeValidationsFailed,
                          Line (replicate 60 CHR ''=''),
                          Line ''\<newline>Please fix the issues above.'']) (\<lambda>_. return_io 1)
     ))))))))))))))))"

section \<open>The test of the model file (\<^verbatim>\<open>tests/test_plugin.py\<close>)\<close>

text \<open>
  The body of the loop over \<open>required_fields\<close> in \<^verbatim>\<open>test_model_files\<close>: the field is
  asserted, then printed.
\<close>

definition model_field_check :: "json \<Rightarrow> string \<Rightarrow> unit io" where
  "model_field_check model field =
     bind_io (lift_io (py_in field model)) (\<lambda>present.
     bind_io (py_assert present (''Missing required field: '' @ field)) (\<lambda>_.
     bind_io (lift_io (py_getitem model field)) (\<lambda>v.
       if field \<noteq> ''output'' then prints [HasField field (ShowValue v)]
       else bind_io (lift_io (py_len v)) (\<lambda>n. prints [HasField field (ShowOutputs n)]))))"

definition test_model_files :: "fs \<Rightarrow> json_load \<Rightarrow> unit io" where
  "test_model_files fs jl =
     bind_io (prints [Line ''\<newline>=== Testing Model Files ==='']) (\<lambda>_.
     bind_io (py_assert (os_path_exists fs model_json_path)
                (''Model file not found: '' @ model_json_path)) (\<lambda>_.
     bind_io (prints [ModelFileExists model_json_path]) (\<lambda>_.
     bind_io (lift_io (read_json fs jl model_json_path)) (\<lambda>model.
     bind_io (prints [TestValidJSON]) (\<lambda>_.
     bind_io (for_io model_required_keys (model_field_check model)) (\<lambda>_.
     bind_io (lift_io (py_getitem model ''output'')) (\<lambda>output.
     bind_io (lift_io (py_len output)) (\<lambda>n.
     bind_io (py_assert (0 < n) ''No output variables defined'') (\<lambda>_.
     bind_io (lift_io (py_keys output)) (\<lambda>ks.
       prints [OutputVariables ks, ModelFilesTestPassed]))))))))))"

section \<open>A plugin tree to run the scripts on\<close>

text \<open>
  A complete plugin directory whose launcher script is not executable, with the values
  \<^verbatim>\<open>json.load\<close> gives for its two JSON files.
\<close>

definition example_model_text :: string where
  \<open>example_model_text =
     ''{"id": "Moret", "varprefix": "$", "delim": "{}", "commentline": "*", "output": {"mean_keff": "grep keff"}}''\<close>

definition example_model :: json where
  "example_model =
     JObj [(''id'', JStr ''Moret''), (''varprefix'', JStr ''$''), (''delim'', JStr ''{}''),
           (''commentline'', JStr ''*''), (''output'', JObj [(''mean_keff'', JStr ''grep keff'')])]"

definition example_calculator_text :: string where
  \<open>example_calculator_text = ''{"uri": "sh://", "models": {"Moret": "bash Moret.sh"}}''\<close>

definition example_calculator :: json where
  "example_calculator =
     JObj [(''uri'', JStr ''sh://''), (''models'', JObj [(''Moret'', JStr ''bash Moret.sh'')])]"

definition example_json_load :: json_load where
  "example_json_load =
     map_of [(example_model_text, example_model), (example_calculator_text, example_calculator)]"

definition example_fs :: fs where
  "example_fs =
     map_of [(''.fz'', Dir True), (''.fz/models'', Dir True), (''.fz/calculators'', Dir True),
             (model_json_path, File example_model_text False),
             (calculator_script_path, File ''#!/bin/bash\<newline>exit 0\<newline>'' False),
             (calculator_json_path, File example_calculator_text False),
             (''godiva.m5'', File ''MORET_BEGIN\<newline>MORET_END\<newline>'' False),
             (''example_usage.py'', File ''import fz\<newline>'' False),
             (''README.md'', File ''# fz-moret\<newline>'' False),
             (''.gitignore'', File ''results\<newline>'' False)]"

text \<open>The same tree with a model file whose \<open>output\<close> mapping is empty.\<close>

definition empty_output_text :: string where
  \<open>empty_output_text =
     ''{"id": "Moret", "varprefix": "$", "delim": "{}", "commentline": "*", "output": {}}''\<close>

definition empty_output_model :: json where
  "empty_output_model =
     JObj [(''id'', JStr ''Moret''), (''varprefix'', JStr ''$''), (''delim'', JStr ''{}''),
           (''commentline'', JStr ''*''), (''output'', JObj [])]"

definition empty_output_fs :: fs where
  "empty_output_fs = example_fs(model_json_path \<mapsto> File empty_output_text False)"

definition empty_output_json_load :: json_load where
  "empty_output_json_load = example_json_load(empty_output_text \<mapsto> empty_output_model)"

text \<open>The same tree with a model file that is the empty object.\<close>

definition no_fields_fs :: fs where
  "no_fields_fs = example_fs(model_json_path \<mapsto> File ''{}'' False)"

definition no_fields_json_load :: json_load where
  "no_fields_json_load = example_json_load(''{}'' \<mapsto> JObj [])"

section \<open>Properties stated about the scripts\<close>

text \<open>A descriptor has the five fields when it is an object with each of them as a key.\<close>

definition has_required_fields :: "json \<Rightarrow> bool" where
  "has_required_fields d =
     (case d of JObj kvs \<Rightarrow> set model_required_keys \<subseteq> set (map fst kvs) | _ \<Rightarrow> False)"

text \<open>Neither line of the summary of \<^verbatim>\<open>main\<close> has been printed.\<close>

definition no_summary :: "'a io \<Rightarrow> bool" where
  "no_summary m =
     (AllValidationsPassed \<notin> set (stdout m) \<and> SomeValidationsFailed \<notin> set (stdout m))"

section \<open>The engine the plugin feeds, as the specification describes it\<close>

text \<open>
  Modelled from the spec: the Variable Expander (section 4.2). It belongs to the
  framework \<^verbatim>\<open>fz\<close>, which the scripts import and the repository does not contain. A
  variable is a name with a single scalar value or an ordered list of candidate values;
  the variable spec keeps the variables in discovery order.
\<close>

datatype 'v variable =
    Scalar 'v
  | Candidates "'v list"

text \<open>
  Modelled from the spec: the values a variable can take in a case, "a single scalar
  value or an ordered list of candidate values".
\<close>

fun candidate_values :: "'v variable \<Rightarrow> 'v list" where
  "candidate_values (Scalar v) = [v]"
| "candidate_values (Candidates vs) = vs"

text \<open>Modelled from the spec: a "scalar-valued" variable, as opposed to a "list-valued" one.\<close>

fun is_scalar :: "'v variable \<Rightarrow> bool" where
  "is_scalar (Scalar v) = True"
| "is_scalar (Candidates vs) = False"

text \<open>
  Modelled from the spec: "Produce the Cartesian product of all list-valued variables
  crossed with all scalar-valued variables held fixed, as an ordered sequence of full
  assignments"; "Empty variable set yields exactly one case". The first variable
  varies slowest.
\<close>

fun expand :: "(string \<times> 'v variable) list \<Rightarrow> (string \<times> 'v) list list" where
  "expand [] = [[]]"
| "expand ((name, x) # rest) =
     concat (map (\<lambda>v. map (\<lambda>a. (name, v) # a) (expand rest)) (candidate_values x))"

text \<open>
  Modelled from the spec: the terminal states of a case (section 4.6) and a result
  value or its missing marker (section 4.5). \<open>Failed\<close> carries its reason.
\<close>

datatype status =
    Done
  | Failed string
  | TimedOut

datatype 'r result_value =
    Missing
  | Extracted 'r

text \<open>
  Modelled from the spec: a row of the results table, "one row per case containing its
  assignment, all declared result values (or missing markers), and its final status".
\<close>

record ('v, 'r) row =
  row_assignment :: "(string \<times> 'v) list"
  row_results :: "(string \<times> 'r result_value) list"
  row_status :: status

text \<open>
  Modelled from the spec: what a case ends with, its extracted results and its terminal
  status, and the row made of it and the assignment of the case.
\<close>

type_synonym 'r finished = "(string \<times> 'r result_value) list \<times> status"

definition make_row :: "(string \<times> 'v) list \<Rightarrow> 'r finished \<Rightarrow> ('v, 'r) row" where
  "make_row a f = \<lparr>row_assignment = a, row_results = fst f, row_status = snd f\<rparr>"

text \<open>
  Modelled from the spec: the aggregation of the Run Orchestrator (sections 4.6, 5 and
  9), "an index-addressed array sized at Study creation". A completion is the index of
  a case in the expander's order with what the case ended with; completions arrive in
  any order and each is stored at its index. The table is assembled once every case
  has reached a terminal state: while a slot is empty there is no table.
\<close>

definition record_completion ::
  "nat \<times> 'r finished \<Rightarrow> 'r finished option list \<Rightarrow> 'r finished option list" where
  "record_completion c slots = slots[fst c := Some (snd c)]"

text \<open>
  Modelled from the spec: the array after all completions, each slot empty at "Study
  creation".
\<close>

definition collect :: "nat \<Rightarrow> (nat \<times> 'r finished) list \<Rightarrow> 'r finished option list" where
  "collect n completions = fold record_completion completions (replicate n None)"

text \<open>
  Modelled from the spec: "the orchestrator assembles the results table: one row per
  case", pairing the cases in the expander's order with their slots.
\<close>

definition results_table ::
  "(string \<times> 'v) list list \<Rightarrow> (nat \<times> 'r finished) list \<Rightarrow> ('v, 'r) row list option" where
  "results_table cases completions =
     those (map2 (\<lambda>a slot. map_option (make_row a) slot) cases
              (collect (length cases) completions))"

text \<open>A variable spec, three cases and their completions (out of order) to run the model on.\<close>

definition example_spec :: "(string \<times> int variable) list" where
  "example_spec =
     [(''temp'', Scalar 300), (''radius'', Candidates [8, 9, 10]), (''mesh'', Candidates [1, 2])]"

definition example_cases :: "(string \<times> int) list list" where
  "example_cases = [[(''radius'', 8)], [(''radius'', 9)], [(''radius'', 10)]]"

definition example_completions :: "(nat \<times> int finished) list" where
  "example_completions =
     [(2, [(''mean_keff'', Extracted 1)], Done),
      (0, [(''mean_keff'', Missing)], Failed ''NoResultsExtracted''),
      (1, [], TimedOut)]"

section \<open>Printing and raising\<close>

lemma outcome_bind_io:
  "outcome (bind_io m f) = (case outcome m of Inl e \<Rightarrow> Inl e | Inr a \<Rightarrow> outcome (f a))"
  by (cases m) (auto simp: bind_io_def outcome_def split: sum.splits prod.splits)

lemma stdout_bind_io:
  "stdout (bind_io m f) = stdout m @ (case outcome m of Inl e \<Rightarrow> [] | Inr a \<Rightarrow> stdout (f a))"
  by (cases m) (auto simp: bind_io_def outcome_def stdout_def split: sum.splits prod.splits)

lemma outcome_basic:
  "outcome (return_io a) = Inr a"
  "outcome (raise_io e) = Inl e"
  "outcome (prints ms) = Inr ()"
  "outcome (lift_io r) = r"
  by (simp_all add: outcome_def return_io_def raise_io_def prints_def lift_io_def)

lemma stdout_basic:
  "stdout (return_io a) = []"
  "stdout (raise_io e) = []"
  "stdout (prints ms) = ms"
  "stdout (lift_io r) = []"
  by (simp_all add: stdout_def return_io_def raise_io_def prints_def lift_io_def)

lemmas io_simps = outcome_bind_io stdout_bind_io outcome_basic stdout_basic

lemmas example_defs = example_fs_def example_json_load_def example_model_text_def
  example_model_def example_calculator_text_def example_calculator_def model_json_path_def
  calculator_script_path_def calculator_json_path_def empty_output_text_def
  empty_output_model_def empty_output_fs_def empty_output_json_load_def no_fields_fs_def
  no_fields_json_load_def

lemmas script_defs = main_def validate_file_exists_def validate_json_file_def
  validate_shell_script_def validate_model_json_def validate_calculator_json_def
  output_listing_def model_key_report_def calculator_key_report_def model_required_keys_def
  os_path_exists_def os_path_isdir_def os_access_x_def open_read_def read_json_def
  py_strip_def py_readline_def py_isspace_def Let_def

lemma no_summary_bind:
  assumes "no_summary m" and "\<And>a. outcome m = Inr a \<Longrightarrow> no_summary (f a)"
  shows "no_summary (bind_io m f)"
  using assms by (cases "outcome m") (auto simp: no_summary_def stdout_bind_io)

lemma no_summary_basic:
  "no_summary (return_io a)" "no_summary (raise_io e)" "no_summary (lift_io r)"
  by (simp_all add: no_summary_def stdout_basic)

lemma no_summary_prints:
  "AllValidationsPassed \<notin> set ms \<Longrightarrow> SomeValidationsFailed \<notin> set ms \<Longrightarrow> no_summary (prints ms)"
  by (simp add: no_summary_def stdout_basic)

lemma no_summary_for_io:
  assumes "\<And>x. no_summary (body x)"
  shows "no_summary (for_io xs body)"
  by (induction xs) (auto intro!: no_summary_bind no_summary_basic assms)

section \<open>The steps of the validation script\<close>

lemma outcome_validate_file_exists:
  "outcome (validate_file_exists fs p d) = Inr (os_path_exists fs p)"
  by (simp add: validate_file_exists_def io_simps)

lemma outcome_check_dirs: "\<exists>b. outcome (check_dirs fs ds v) = Inr b"
  by (induction ds arbitrary: v) (simp_all add: io_simps)

lemma validate_shell_script_file:
  "fs p = Some (File c x) \<Longrightarrow> outcome (validate_shell_script fs p d) = Inr True"
  by (simp add: validate_shell_script_def io_simps outcome_validate_file_exists
      os_path_exists_def open_read_def Let_def)

lemma validate_shell_script_raises:
  "outcome (validate_shell_script fs p d) = Inl e \<Longrightarrow> e = IsADirectoryError"
  by (cases "fs p")
     (auto simp: validate_shell_script_def io_simps outcome_validate_file_exists
        os_path_exists_def open_read_def Let_def split: node.splits)

lemma validate_model_json_absent:
  "fs p = None \<Longrightarrow> outcome (validate_model_json fs jl p) = Inl FileNotFoundError"
  by (simp add: validate_model_json_def io_simps read_json_def open_read_def)

lemma validate_json_file_absent:
  "fs p = None \<Longrightarrow> outcome (validate_json_file fs jl p d) = Inr False"
  by (simp add: validate_json_file_def io_simps outcome_validate_file_exists os_path_exists_def)

lemma no_summary_validate_file_exists: "no_summary (validate_file_exists fs p d)"
  unfolding validate_file_exists_def
  by (auto intro!: no_summary_bind no_summary_basic no_summary_prints)

lemma no_summary_validate_json_file: "no_summary (validate_json_file fs jl p d)"
  unfolding validate_json_file_def
  by (auto intro!: no_summary_bind no_summary_basic no_summary_prints
        no_summary_validate_file_exists split: option.splits)

lemma no_summary_validate_shell_script: "no_summary (validate_shell_script fs p d)"
  unfolding validate_shell_script_def Let_def
  by (auto intro!: no_summary_bind no_summary_basic no_summary_prints
        no_summary_validate_file_exists split: if_splits)

lemma no_summary_check_dirs: "no_summary (check_dirs fs ds v)"
  by (induction ds arbitrary: v)
     (auto intro!: no_summary_bind no_summary_basic no_summary_prints)

lemma no_summary_model_key_report: "no_summary (model_key_report model key)"
  unfolding model_key_report_def
  by (auto intro!: no_summary_bind no_summary_basic no_summary_prints)

lemma no_summary_validate_model_json: "no_summary (validate_model_json fs jl p)"
  unfolding validate_model_json_def output_listing_def
  by (auto intro!: no_summary_bind no_summary_basic no_summary_prints no_summary_for_io
        no_summary_model_key_report)

lemma main_raises_absent:
  assumes "fs model_json_path = None"
  shows "\<exists>e. outcome (main fs jl) = Inl e"
proof -
  obtain b where b: "outcome (check_dirs fs [''.fz'', ''.fz/models'', ''.fz/calculators''] True) = Inr b"
    using outcome_check_dirs by blast
  show ?thesis
    unfolding main_def using assms
    by (simp add: io_simps b validate_json_file_absent validate_model_json_absent
        outcome_validate_file_exists split: sum.splits)
qed

lemma main_raises_absent_which:
  assumes "fs model_json_path = None"
    and "outcome (validate_shell_script fs calculator_script_path ''Calculator script'') = Inr r3"
    and "outcome (validate_json_file fs jl calculator_json_path ''Calculator alias'') = Inr r4"
  shows "outcome (main fs jl) = Inl FileNotFoundError"
proof -
  obtain b where b: "outcome (check_dirs fs [''.fz'', ''.fz/models'', ''.fz/calculators''] True) = Inr b"
    using outcome_check_dirs by blast
  show ?thesis
    unfolding main_def using assms
    by (simp add: io_simps b validate_json_file_absent validate_model_json_absent
        outcome_validate_file_exists)
qed

lemma no_summary_main_absent:
  assumes "fs model_json_path = None"
  shows "no_summary (main fs jl)"
  unfolding main_def
  apply (intro no_summary_bind no_summary_prints no_summary_check_dirs
      no_summary_validate_json_file no_summary_validate_shell_script
      no_summary_validate_file_exists no_summary_validate_model_json)
  apply (simp_all add: validate_model_json_absent assms)
  done

section \<open>The validation script without its model file\<close>

text \<open>
  Claim C9. When the model file \<^verbatim>\<open>.fz/models/Moret.json\<close> is absent, \<^verbatim>\<open>main\<close> does not
  return 1 (nor 0): it ends with an exception, and neither line of the summary is
  printed. \<^verbatim>\<open>validate_json_file\<close> records the failure by returning \<open>False\<close>; the later
  call of \<^verbatim>\<open>validate_model_json\<close> on the same path raises \<open>FileNotFoundError\<close>,
  which nothing catches. That is the exception \<^verbatim>\<open>main\<close> ends with, unless one of the two
  checks of the calculator files (step 3, which runs before) has raised already.
\<close>

theorem main_without_model_file:
  assumes "fs model_json_path = None"
  shows "(\<exists>e. outcome (main fs jl) = Inl e)
       \<and> no_summary (main fs jl)
       \<and> outcome (validate_json_file fs jl model_json_path ''Model definition'') = Inr False
       \<and> outcome (validate_model_json fs jl model_json_path) = Inl FileNotFoundError
       \<and> (outcome (main fs jl) = Inl FileNotFoundError
          \<or> outcome (validate_shell_script fs calculator_script_path ''Calculator script'')
              = Inl IsADirectoryError
          \<or> (\<exists>e. outcome (validate_json_file fs jl calculator_json_path ''Calculator alias'')
              = Inl e))"
proof -
  have last: "outcome (main fs jl) = Inl FileNotFoundError
          \<or> outcome (validate_shell_script fs calculator_script_path ''Calculator script'')
              = Inl IsADirectoryError
          \<or> (\<exists>e. outcome (validate_json_file fs jl calculator_json_path ''Calculator alias'')
              = Inl e)"
  proof (cases "outcome (validate_shell_script fs calculator_script_path ''Calculator script'')")
    case (Inl e)
    then show ?thesis using validate_shell_script_raises by blast
  next
    case r3: (Inr r3)
    show ?thesis
    proof (cases "outcome (validate_json_file fs jl calculator_json_path ''Calculator alias'')")
      case (Inl e)
      then show ?thesis by blast
    next
      case (Inr r4)
      then show ?thesis using main_raises_absent_which[OF assms r3] by blast
    qed
  qed
  show ?thesis
    using assms last
    by (simp add: main_raises_absent no_summary_main_absent validate_json_file_absent
        validate_model_json_absent)
qed

text \<open>
  The plugin tree of the example with its model file removed: every other check passes,
  and \<^verbatim>\<open>main\<close> ends with \<open>FileNotFoundError\<close>.
\<close>

theorem main_without_model_file_witness:
  "(example_fs(model_json_path := None)) model_json_path = None
   \<and> outcome (main (example_fs(model_json_path := None)) example_json_load)
       = Inl FileNotFoundError
   \<and> no_summary (main (example_fs(model_json_path := None)) example_json_load)
   \<and> outcome (validate_shell_script (example_fs(model_json_path := None))
        calculator_script_path ''Calculator script'') = Inr True
   \<and> outcome (validate_json_file (example_fs(model_json_path := None)) example_json_load
        calculator_json_path ''Calculator alias'') = Inr True"
proof -
  have sh: "outcome (validate_shell_script (example_fs(model_json_path := None))
        calculator_script_path ''Calculator script'') = Inr True"
    by (simp add: script_defs example_defs io_simps)
  have js: "outcome (validate_json_file (example_fs(model_json_path := None)) example_json_load
        calculator_json_path ''Calculator alias'') = Inr True"
    by (simp add: script_defs example_defs io_simps)
  show ?thesis
    using main_without_model_file [of "example_fs(model_json_path := None)" example_json_load]
      sh js
    by simp
qed

section \<open>The launcher script is reported, not judged\<close>

text \<open>
  Claim C10. For every path that names an existing file, \<^verbatim>\<open>validate_shell_script\<close>
  returns \<open>True\<close>, whether or not the file is executable and whatever its first line
  is. Consequently \<^verbatim>\<open>main\<close> can print ALL VALIDATIONS PASSED and return 0 although the
  launcher script is not executable: it does so on the plugin tree of the example, where
  the line about the launcher says that it is not executable.
\<close>

theorem validate_shell_script_always_true:
  "(\<forall>fs p d c x. fs p = Some (File c x) \<longrightarrow>
       outcome (validate_shell_script fs p d) = Inr True)
   \<and> \<not> os_access_x example_fs calculator_script_path
   \<and> outcome (main example_fs example_json_load) = Inr 0
   \<and> AllValidationsPassed \<in> set (stdout (main example_fs example_json_load))
   \<and> ExecutableNo \<in> set (stdout (main example_fs example_json_load))"
proof -
  have a: "\<not> os_access_x example_fs calculator_script_path"
    by (simp add: script_defs example_defs)
  have b: "outcome (main example_fs example_json_load) = Inr 0"
    by (simp add: script_defs example_defs io_simps)
  have c: "AllValidationsPassed \<in> set (stdout (main example_fs example_json_load))"
    by (simp add: script_defs example_defs io_simps)
  have d: "ExecutableNo \<in> set (stdout (main example_fs example_json_load))"
    by (simp add: script_defs example_defs io_simps)
  show ?thesis
    using a b c d by (simp add: validate_shell_script_file)
qed

text \<open>
  Two files of the example, neither executable: the launcher, which starts with a
  shebang, and the README, which does not.
\<close>

theorem validate_shell_script_always_true_witness:
  "example_fs calculator_script_path = Some (File ''#!/bin/bash\<newline>exit 0\<newline>'' False)
   \<and> outcome (validate_shell_script example_fs calculator_script_path ''Calculator script'')
       = Inr True
   \<and> example_fs ''README.md'' = Some (File ''# fz-moret\<newline>'' False)
   \<and> outcome (validate_shell_script example_fs ''README.md'' ''README'') = Inr True"
proof -
  have f1: "example_fs calculator_script_path
      = Some (File ''#!/bin/bash\<newline>exit 0\<newline>'' False)"
    by (simp add: example_defs)
  have f2: "example_fs ''README.md'' = Some (File ''# fz-moret\<newline>'' False)"
    by (simp add: example_defs)
  show ?thesis
    using validate_shell_script_always_true f1 f2 by blast
qed

section \<open>The two checks of the fields of a model descriptor\<close>

lemma py_in_obj: "py_in k (JObj kvs) = Inr (map_of kvs k \<noteq> None)"
  by (simp add: map_of_eq_None_iff)

lemma has_required_fields_obj:
  "has_required_fields (JObj kvs) \<longleftrightarrow>
     map_of kvs ''id'' \<noteq> None \<and> map_of kvs ''varprefix'' \<noteq> None
     \<and> map_of kvs ''delim'' \<noteq> None \<and> map_of kvs ''commentline'' \<noteq> None
     \<and> map_of kvs ''output'' \<noteq> None"
  by (simp add: has_required_fields_def model_required_keys_def map_of_eq_None_iff)

lemma outcome_model_field_check_obj:
  "outcome (model_field_check (JObj kvs) k) =
     (case map_of kvs k of
        None \<Rightarrow> Inl (AssertionError (''Missing required field: '' @ k))
      | Some v \<Rightarrow> if k \<noteq> ''output'' then Inr ()
                  else (case py_len v of Inl e \<Rightarrow> Inl e | Inr n \<Rightarrow> Inr ()))"
  unfolding model_field_check_def py_in_obj
  by (auto simp: io_simps py_assert_def split: option.splits sum.splits)

lemma outcome_model_field_check_other:
  assumes "\<And>kvs. d \<noteq> JObj kvs"
  shows "\<exists>e. outcome (model_field_check d k) = Inl e"
  using assms unfolding model_field_check_def
  by (cases d) (auto simp: io_simps py_assert_def split: option.splits sum.splits)

lemma test_model_files_obj:
  assumes "fs model_json_path = Some (File c x)" "jl c = Some (JObj kvs)"
  shows "outcome (test_model_files fs jl) = Inr () \<longleftrightarrow>
         (has_required_fields (JObj kvs)
          \<and> (\<exists>okvs. map_of kvs ''output'' = Some (JObj okvs) \<and> okvs \<noteq> []))"
proof -
  have rd: "read_json fs jl model_json_path = Inr (JObj kvs)"
    using assms by (simp add: read_json_def open_read_def)
  have ex: "os_path_exists fs model_json_path"
    using assms by (simp add: os_path_exists_def)
  show ?thesis
    unfolding test_model_files_def has_required_fields_obj
    apply (simp add: io_simps rd ex py_assert_def model_required_keys_def
          outcome_model_field_check_obj split: option.splits sum.splits)
    apply (auto split: json.splits elim: py_len.elims py_keys.elims)
    done
qed

lemma test_model_files_other:
  assumes "fs model_json_path = Some (File c x)" "jl c = Some d" "\<And>kvs. d \<noteq> JObj kvs"
  shows "outcome (test_model_files fs jl) \<noteq> Inr ()"
proof -
  have rd: "read_json fs jl model_json_path = Inr d"
    using assms by (simp add: read_json_def open_read_def)
  have ex: "os_path_exists fs model_json_path"
    using assms by (simp add: os_path_exists_def)
  obtain e where e: "outcome (model_field_check d ''id'') = Inl e"
    using outcome_model_field_check_other[of d "''id''"] assms(3) by blast
  show ?thesis
    unfolding test_model_files_def
    by (simp add: io_simps rd ex py_assert_def model_required_keys_def e)
qed

lemma test_model_files_accepts:
  assumes "fs model_json_path = Some (File c x)" "jl c = Some d"
  shows "outcome (test_model_files fs jl) = Inr () \<longleftrightarrow>
         (has_required_fields d
          \<and> (\<exists>okvs. py_getitem d ''output'' = Inr (JObj okvs) \<and> okvs \<noteq> []))"
proof (cases "\<exists>kvs. d = JObj kvs")
  case True
  then obtain kvs where d: "d = JObj kvs" by blast
  show ?thesis
    using test_model_files_obj[of fs c x jl kvs] assms
    unfolding d by (auto split: option.splits)
next
  case False
  then have "outcome (test_model_files fs jl) \<noteq> Inr ()"
    using test_model_files_other[of fs c x jl d] assms by blast
  moreover have "\<not> has_required_fields d"
    using False by (cases d) (simp_all add: has_required_fields_def)
  ultimately show ?thesis by blast
qed

lemma model_key_report_obj:
  "model_key_report (JObj kvs) k =
     (case map_of kvs k of
        None \<Rightarrow> prints [MissingKey k]
      | Some v \<Rightarrow> if k \<noteq> ''output'' then prints [RequiredKey k (ShowValue v)]
                  else bind_io (lift_io (py_len v)) (\<lambda>n. prints [RequiredKey k (ShowOutputs n)]))"
  unfolding model_key_report_def py_in_obj
  by (auto simp: bind_io_def lift_io_def split: option.splits)

lemma outcome_model_key_report:
  "k \<noteq> ''output'' \<Longrightarrow> outcome (model_key_report (JObj kvs) k) = Inr ()"
  by (simp add: model_key_report_obj io_simps split: option.splits)

lemma outcome_model_key_report_output:
  "outcome (model_key_report (JObj kvs) ''output'') =
     (case map_of kvs ''output'' of
        None \<Rightarrow> Inr ()
      | Some v \<Rightarrow> (case py_len v of Inl e \<Rightarrow> Inl e | Inr n \<Rightarrow> Inr ()))"
  by (simp add: model_key_report_obj io_simps split: option.splits sum.splits)

lemma missing_model_key_report:
  "MissingKey k \<in> set (stdout (model_key_report (JObj kvs) k')) \<longleftrightarrow> k = k' \<and> map_of kvs k = None"
  by (auto simp: model_key_report_obj io_simps split: option.splits sum.splits)

lemma stdout_output_vars:
  "stdout (for_io items (\<lambda>output_key. prints [OutputVar output_key])) = map OutputVar items"
  by (induction items) (simp_all add: io_simps)

lemma outcome_output_vars:
  "outcome (for_io items (\<lambda>output_key. prints [OutputVar output_key])) = Inr ()"
  by (induction items) (simp_all add: io_simps)

lemma keys_loop_outcome:
  "outcome (for_io model_required_keys (model_key_report (JObj kvs))) =
     outcome (model_key_report (JObj kvs) ''output'')"
  by (simp add: model_required_keys_def io_simps outcome_model_key_report split: sum.splits)

lemma keys_loop_missing:
  "MissingKey k \<in> set (stdout (for_io model_required_keys (model_key_report (JObj kvs)))) \<longleftrightarrow>
     k \<in> set model_required_keys \<and> map_of kvs k = None"
  by (auto simp: model_required_keys_def io_simps outcome_model_key_report missing_model_key_report)

lemma output_listing_missing: "MissingKey k \<notin> set (stdout (output_listing model))"
  unfolding output_listing_def
  by (auto simp: io_simps stdout_output_vars split: sum.splits if_splits)

lemma output_listing_outcome:
  "outcome (output_listing (JObj kvs)) =
     (case map_of kvs ''output'' of
        None \<Rightarrow> Inr ()
      | Some v \<Rightarrow> (case py_iter v of Inl e \<Rightarrow> Inl e | Inr n \<Rightarrow> Inr ()))"
  unfolding output_listing_def py_in_obj
  by (auto simp: io_simps outcome_output_vars split: sum.splits option.splits)

lemma py_iter_len: "py_len v = Inr n \<Longrightarrow> \<exists>xs. py_iter v = Inr xs"
  by (cases v) auto

lemma validate_model_json_obj_outcome:
  assumes "fs p = Some (File c x)" "jl c = Some (JObj kvs)"
  shows "outcome (validate_model_json fs jl p) =
           (case map_of kvs ''output'' of
              None \<Rightarrow> Inr ()
            | Some v \<Rightarrow> (case py_len v of Inl e \<Rightarrow> Inl e | Inr n \<Rightarrow> Inr ()))"
proof -
  have rd: "read_json fs jl p = Inr (JObj kvs)"
    using assms by (simp add: read_json_def open_read_def)
  show ?thesis
    unfolding validate_model_json_def
    by (auto simp: io_simps rd keys_loop_outcome outcome_model_key_report_output
        output_listing_outcome split: option.splits sum.splits dest: py_iter_len)
qed

lemma validate_model_json_obj_missing:
  assumes "fs p = Some (File c x)" "jl c = Some (JObj kvs)"
  shows "MissingKey k \<in> set (stdout (validate_model_json fs jl p)) \<longleftrightarrow>
           k \<in> set model_required_keys \<and> k \<notin> set (map fst kvs)"
proof -
  have rd: "read_json fs jl p = Inr (JObj kvs)"
    using assms by (simp add: read_json_def open_read_def)
  have mem: "k \<notin> set (map fst kvs) \<longleftrightarrow> map_of kvs k = None"
    by (simp add: map_of_eq_None_iff)
  show ?thesis
    unfolding validate_model_json_def mem
    by (auto simp: io_simps rd keys_loop_missing output_listing_missing split: sum.splits)
qed

lemmas test_defs = test_model_files_def model_field_check_def py_assert_def

text \<open>
  Claim C7, as the scripts have it. The descriptor is what \<^verbatim>\<open>json.load\<close> gives for
  the model file. \<^verbatim>\<open>test_model_files\<close> accepts it (returns without an exception) exactly
  when it is an object with the five fields \<open>id\<close>, \<open>varprefix\<close>, \<open>delim\<close>,
  \<open>commentline\<close> and \<open>output\<close> whose \<open>output\<close> is a non-empty object.
  \<^verbatim>\<open>validate_model_json\<close> gives no verdict on the fields of an object: it prints a
  line "Missing required key" for exactly the absent ones among the five, and it returns
  normally whenever the \<open>output\<close> field, if there is one, has a length.
\<close>

theorem model_descriptor_checks:
  assumes "fs model_json_path = Some (File c x)" and "jl c = Some d"
  shows "(outcome (test_model_files fs jl) = Inr () \<longleftrightarrow>
            has_required_fields d
            \<and> (\<exists>okvs. py_getitem d ''output'' = Inr (JObj okvs) \<and> okvs \<noteq> []))
       \<and> (\<forall>kvs. d = JObj kvs \<longrightarrow>
            (\<forall>k. MissingKey k \<in> set (stdout (validate_model_json fs jl model_json_path)) \<longleftrightarrow>
                   k \<in> set model_required_keys \<and> k \<notin> set (map fst kvs))
            \<and> outcome (validate_model_json fs jl model_json_path) =
                (case map_of kvs ''output'' of
                   None \<Rightarrow> Inr ()
                 | Some v \<Rightarrow> (case py_len v of Inl e \<Rightarrow> Inl e | Inr n \<Rightarrow> Inr ())))"
proof -
  have t: "outcome (test_model_files fs jl) = Inr () \<longleftrightarrow>
            has_required_fields d
            \<and> (\<exists>okvs. py_getitem d ''output'' = Inr (JObj okvs) \<and> okvs \<noteq> [])"
    using test_model_files_accepts[of fs c x jl d] assms by blast
  have v: "(\<forall>k. MissingKey k \<in> set (stdout (validate_model_json fs jl model_json_path)) \<longleftrightarrow>
                   k \<in> set model_required_keys \<and> k \<notin> set (map fst kvs))
            \<and> outcome (validate_model_json fs jl model_json_path) =
                (case map_of kvs ''output'' of
                   None \<Rightarrow> Inr ()
                 | Some v \<Rightarrow> (case py_len v of Inl e \<Rightarrow> Inl e | Inr n \<Rightarrow> Inr ()))"
    if "d = JObj kvs" for kvs
    using validate_model_json_obj_missing[of fs model_json_path c x jl kvs]
      validate_model_json_obj_outcome[of fs model_json_path c x jl kvs] assms that
    by blast
  show ?thesis using t v by blast
qed

text \<open>The model file of the example passes both checks.\<close>

theorem model_descriptor_checks_witness:
  "example_fs model_json_path = Some (File example_model_text False)
   \<and> example_json_load example_model_text = Some example_model
   \<and> has_required_fields example_model
   \<and> outcome (test_model_files example_fs example_json_load) = Inr ()
   \<and> outcome (validate_model_json example_fs example_json_load model_json_path) = Inr ()"
proof -
  have f: "example_fs model_json_path = Some (File example_model_text False)"
    by (simp add: example_defs)
  have j: "example_json_load example_model_text = Some example_model"
    by (simp add: example_defs)
  have h: "has_required_fields example_model"
    by (simp add: has_required_fields_def example_defs model_required_keys_def)
  have o: "py_getitem example_model ''output'' = Inr (JObj [(''mean_keff'', JStr ''grep keff'')])"
    by (simp add: example_defs)
  have m: "example_model = JObj [(''id'', JStr ''Moret''), (''varprefix'', JStr ''$''),
             (''delim'', JStr ''{}''), (''commentline'', JStr ''*''),
             (''output'', JObj [(''mean_keff'', JStr ''grep keff'')])]"
    by (simp add: example_defs)
  show ?thesis
    using model_descriptor_checks
        [of example_fs example_model_text False example_json_load example_model] f j h o m
    by simp
qed

text \<open>
  Against "both entry points accept a descriptor if and only if all five fields are
  present": a descriptor with the five fields and an empty \<open>output\<close> is rejected by
  \<^verbatim>\<open>test_model_files\<close>, and the empty object, which has none of the fields, passes
  \<^verbatim>\<open>validate_model_json\<close>.
\<close>

theorem model_descriptor_claim_counterexample:
  "has_required_fields empty_output_model
   \<and> empty_output_fs model_json_path = Some (File empty_output_text False)
   \<and> empty_output_json_load empty_output_text = Some empty_output_model
   \<and> outcome (test_model_files empty_output_fs empty_output_json_load)
       = Inl (AssertionError ''No output variables defined'')
   \<and> \<not> has_required_fields (JObj [])
   \<and> no_fields_fs model_json_path = Some (File ''{}'' False)
   \<and> no_fields_json_load ''{}'' = Some (JObj [])
   \<and> outcome (validate_model_json no_fields_fs no_fields_json_load model_json_path) = Inr ()"
proof -
  have 1: "has_required_fields empty_output_model"
    by (simp add: has_required_fields_def example_defs model_required_keys_def)
  have 2: "empty_output_fs model_json_path = Some (File empty_output_text False)"
    by (simp add: example_defs)
  have 3: "empty_output_json_load empty_output_text = Some empty_output_model"
    by (simp add: example_defs)
  have 4: "outcome (test_model_files empty_output_fs empty_output_json_load)
       = Inl (AssertionError ''No output variables defined'')"
    by (simp add: test_defs script_defs example_defs io_simps)
  have 5: "\<not> has_required_fields (JObj [])"
    by (simp add: has_required_fields_def model_required_keys_def)
  have 6: "no_fields_fs model_json_path = Some (File ''{}'' False)"
    by (simp add: example_defs)
  have 7: "no_fields_json_load ''{}'' = Some (JObj [])"
    by (simp add: example_defs)
  have 8: "outcome (validate_model_json no_fields_fs no_fields_json_load model_json_path) = Inr ()"
    by (simp add: script_defs example_defs io_simps)
  show ?thesis using 1 2 3 4 5 6 7 8 by blast
qed

section \<open>The expander's cases\<close>

lemma length_concat_const:
  "length (concat (map (\<lambda>v. map (f v) ys) xs)) = length xs * length ys"
  by (induction xs) simp_all

lemma length_expand:
  "length (expand spec) = prod_list (map (\<lambda>(name, x). length (candidate_values x)) spec)"
  by (induction spec) (auto simp: length_concat_const)

lemma expand_product_lists:
  "expand spec =
     map (zip (map fst spec)) (product_lists (map (\<lambda>(name, x). candidate_values x) spec))"
  by (induction spec) (auto simp: map_concat comp_def)

lemma expand_scalar_fixed:
  "a \<in> set (expand spec) \<Longrightarrow> (name, Scalar v) \<in> set spec \<Longrightarrow> (name, v) \<in> set a"
  by (induction spec arbitrary: a) auto

lemma scalars_one:
  "list_all (\<lambda>(name, x). is_scalar x) spec \<Longrightarrow>
     prod_list (map (\<lambda>(name, x). length (candidate_values x)) spec) = 1"
  by (induction spec) (auto elim: is_scalar.elims)

lemma one_list_variable:
  assumes "spec = pre @ [(name, Candidates vs)] @ post"
    and "list_all (\<lambda>(n, x). is_scalar x) pre" and "list_all (\<lambda>(n, x). is_scalar x) post"
  shows "length (expand spec) = length vs"
  using assms by (simp add: length_expand scalars_one)

text \<open>
  Claim C1, for the expander as the specification describes it. The number of cases is
  the product of the numbers of candidate values (a scalar counts as one value); the
  cases are the ordered Cartesian product of the candidate lists, each case assigning
  every variable of the spec in its order; every scalar variable has its one value in
  every case; and when exactly one variable is list-valued, with \<open>n\<close> candidates, and
  all others are scalar, there are exactly \<open>n\<close> cases.
\<close>

theorem expand_cartesian_product:
  "length (expand spec) = prod_list (map (\<lambda>(name, x). length (candidate_values x)) spec)
   \<and> expand spec =
       map (zip (map fst spec)) (product_lists (map (\<lambda>(name, x). candidate_values x) spec))
   \<and> (\<forall>a \<in> set (expand spec). \<forall>name v. (name, Scalar v) \<in> set spec \<longrightarrow> (name, v) \<in> set a)
   \<and> (\<forall>pre name vs post.
         spec = pre @ [(name, Candidates vs)] @ post
         \<and> list_all (\<lambda>(n, x). is_scalar x) pre \<and> list_all (\<lambda>(n, x). is_scalar x) post
         \<longrightarrow> length (expand spec) = length vs)"
  using length_expand[of spec] expand_product_lists[of spec] expand_scalar_fixed[of _ spec]
    one_list_variable[of spec]
  by blast

text \<open>
  One scalar and two list-valued variables with 3 and 2 candidates give 6 cases; one
  scalar and one list-valued variable with 3 candidates give 3.
\<close>

theorem expand_cartesian_product_witness:
  "length (expand example_spec) = 6
   \<and> expand example_spec =
       [[(''temp'', 300), (''radius'', 8), (''mesh'', 1)],
        [(''temp'', 300), (''radius'', 8), (''mesh'', 2)],
        [(''temp'', 300), (''radius'', 9), (''mesh'', 1)],
        [(''temp'', 300), (''radius'', 9), (''mesh'', 2)],
        [(''temp'', 300), (''radius'', 10), (''mesh'', 1)],
        [(''temp'', 300), (''radius'', 10), (''mesh'', 2)]]
   \<and> (''temp'', Scalar 300) \<in> set example_spec
   \<and> list_all (\<lambda>a. (''temp'', 300) \<in> set a) (expand example_spec)
   \<and> list_all (\<lambda>(n, x). is_scalar x) [(''temp'', Scalar (300::int))]
   \<and> length (expand ([(''temp'', Scalar (300::int))] @ [(''radius'', Candidates [8, 9, 10])] @ []))
       = 3"
  using expand_cartesian_product [of example_spec]
    expand_cartesian_product
      [of "[(''temp'', Scalar (300::int))] @ [(''radius'', Candidates [8, 9, 10])] @ []"]
  by (simp add: example_spec_def)

section \<open>The results table\<close>

lemma length_fold_record:
  "length (fold record_completion cs slots) = length slots"
  by (induction cs arbitrary: slots) (simp_all add: record_completion_def)

lemma nth_fold_record:
  assumes "distinct (map fst cs)" "i < length slots"
  shows "fold record_completion cs slots ! i =
           (case map_of cs i of None \<Rightarrow> slots ! i | Some f \<Rightarrow> Some f)"
  using assms
proof (induction cs arbitrary: slots)
  case Nil
  then show ?case by simp
next
  case (Cons c cs)
  obtain j f where c: "c = (j, f)" by (cases c)
  have notin: "j \<notin> fst ` set cs" using Cons.prems(1) c by auto
  then have none: "map_of cs j = None" by (simp add: map_of_eq_None_iff)
  have len: "i < length (record_completion c slots)"
    using Cons.prems(2) by (simp add: record_completion_def)
  show ?case
    using Cons.IH[OF _ len] Cons.prems c none
    by (auto simp: record_completion_def nth_list_update split: option.splits)
qed

lemma those_map_Some: "those (map Some xs) = Some xs"
  by (induction xs) simp_all

lemma collect_all:
  assumes "distinct (map fst cs)" "fst ` set cs = {0..<n}"
  shows "collect n cs = map (\<lambda>i. Some (the (map_of cs i))) [0..<n]"
proof (rule nth_equalityI)
  show "length (collect n cs) = length (map (\<lambda>i. Some (the (map_of cs i))) [0..<n])"
    by (simp add: collect_def length_fold_record)
next
  fix i assume "i < length (collect n cs)"
  then have i: "i < n" by (simp add: collect_def length_fold_record)
  then have "i \<in> fst ` set cs" using assms(2) by simp
  then obtain f where "map_of cs i = Some f"
    by (metis map_of_eq_None_iff not_Some_eq)
  then show "collect n cs ! i = map (\<lambda>i. Some (the (map_of cs i))) [0..<n] ! i"
    using i assms(1) by (simp add: collect_def nth_fold_record)
qed

lemma results_table_all:
  assumes "distinct (map fst cs)" "fst ` set cs = {0..<length cases}"
  shows "results_table cases cs =
           Some (map (\<lambda>i. make_row (cases ! i) (the (map_of cs i))) [0..<length cases])"
proof -
  have "map2 (\<lambda>a slot. map_option (make_row a) slot) cases (collect (length cases) cs)
        = map Some (map (\<lambda>i. make_row (cases ! i) (the (map_of cs i))) [0..<length cases])"
    by (rule nth_equalityI) (simp_all add: collect_all[OF assms])
  then show ?thesis
    unfolding results_table_def by (simp only: those_map_Some)
qed

lemma map_of_same_set:
  assumes "distinct (map fst cs)" "distinct (map fst cs')" "set cs' = set cs"
  shows "map_of cs' = map_of cs"
  using map_of_inject_set[OF assms(2) assms(1)] assms(3) by blast

lemma results_table_order:
  assumes "distinct (map fst cs)" "fst ` set cs = {0..<length cases}"
    and "distinct (map fst cs')" "set cs' = set cs"
  shows "results_table cases cs' = results_table cases cs"
proof -
  have dom: "fst ` set cs' = {0..<length cases}" using assms(2,4) by simp
  have eq: "map_of cs' = map_of cs" using assms(1,3,4) by (rule map_of_same_set)
  show ?thesis
    unfolding results_table_all[OF assms(1,2)] results_table_all[OF assms(3) dom] eq ..
qed

lemma results_table_rows:
  assumes "distinct (map fst cs)" "fst ` set cs = {0..<length cases}"
  shows "\<exists>table. results_table cases cs = Some table \<and> length table = length cases
          \<and> (\<forall>i<length cases. row_assignment (table ! i) = cases ! i
               \<and> (i, row_results (table ! i), row_status (table ! i)) \<in> set cs)"
proof -
  let ?table = "map (\<lambda>i. make_row (cases ! i) (the (map_of cs i))) [0..<length cases]"
  have "(i, row_results (?table ! i), row_status (?table ! i)) \<in> set cs" if "i < length cases" for i
  proof -
    have "i \<in> fst ` set cs" using that assms(2) by simp
    then obtain f where f: "map_of cs i = Some f"
      by (metis map_of_eq_None_iff not_Some_eq)
    then have "(i, f) \<in> set cs" by (rule map_of_SomeD)
    then show ?thesis using that f by (simp add: make_row_def)
  qed
  then show ?thesis
    using results_table_all[OF assms] by (simp add: make_row_def)
qed

text \<open>
  Claim C2, for the aggregation as the specification describes it. When every case has
  reached a terminal state exactly once, in whatever order the completions arrived, the
  table has exactly one row per case, row \<open>i\<close> carries the assignment of case \<open>i\<close> of
  the expander's order and the results and final status that case completed with (a
  failed or timed-out case has its row like any other), and any other order of the same
  completions gives the same table.
\<close>

theorem results_table_in_case_order:
  assumes "distinct (map fst completions)" and "fst ` set completions = {0..<length cases}"
  shows "\<exists>table. results_table cases completions = Some table
          \<and> length table = length cases
          \<and> (\<forall>i<length cases. row_assignment (table ! i) = cases ! i
               \<and> (i, row_results (table ! i), row_status (table ! i)) \<in> set completions)
          \<and> (\<forall>completions'. distinct (map fst completions') \<and> set completions' = set completions
               \<longrightarrow> results_table cases completions' = Some table)"
proof -
  obtain table where t: "results_table cases completions = Some table"
      "length table = length cases"
      "\<forall>i<length cases. row_assignment (table ! i) = cases ! i
               \<and> (i, row_results (table ! i), row_status (table ! i)) \<in> set completions"
    using results_table_rows[OF assms] by blast
  have "results_table cases completions' = Some table"
    if "distinct (map fst completions')" "set completions' = set completions" for completions'
    using results_table_order[OF assms that] t(1) by simp
  then show ?thesis using t by blast
qed

text \<open>
  Three cases completing in the order 2, 0, 1, one failed and one timed out: the table
  is in the order 0, 1, 2, and the reverse order of completion gives the same table.
\<close>

theorem results_table_in_case_order_witness:
  "distinct (map fst example_completions)
   \<and> fst ` set example_completions = {0..<length example_cases}
   \<and> results_table example_cases example_completions =
       Some [\<lparr>row_assignment = [(''radius'', 8)], row_results = [(''mean_keff'', Missing)],
                row_status = Failed ''NoResultsExtracted''\<rparr>,
             \<lparr>row_assignment = [(''radius'', 9)], row_results = [], row_status = TimedOut\<rparr>,
             \<lparr>row_assignment = [(''radius'', 10)], row_results = [(''mean_keff'', Extracted 1)],
                row_status = Done\<rparr>]
   \<and> results_table example_cases (rev example_completions) =
       results_table example_cases example_completions"
proof -
  have d: "distinct (map fst example_completions)"
    by (simp add: example_completions_def)
  have s: "fst ` set example_completions = {0..<length example_cases}"
    by (auto simp: example_completions_def example_cases_def)
  have v: "results_table example_cases example_completions =
       Some [\<lparr>row_assignment = [(''radius'', 8)], row_results = [(''mean_keff'', Missing)],
                row_status = Failed ''NoResultsExtracted''\<rparr>,
             \<lparr>row_assignment = [(''radius'', 9)], row_results = [], row_status = TimedOut\<rparr>,
             \<lparr>row_assignment = [(''radius'', 10)], row_results = [(''mean_keff'', Extracted 1)],
                row_status = Done\<rparr>]"
    by (simp add: results_table_def collect_def record_completion_def make_row_def
        example_completions_def example_cases_def)
  have r: "distinct (map fst (rev example_completions))
           \<and> set (rev example_completions) = set example_completions"
    by (auto simp: example_completions_def)
  show ?thesis
    using results_table_in_case_order [OF d s] d s v r by auto
qed

end
